theory Spec2Isabelle
  imports Main
begin

section \<open>Data model\<close>

text \<open>
  The operator views of \<^verbatim>\<open>src/pretix/control/views/orders.py\<close>, embedded as pure
  functions over an explicit world. An order has one of five statuses.
\<close>

datatype order_status =
  STATUS_PENDING | STATUS_PAID | STATUS_EXPIRED | STATUS_CANCELED | STATUS_REFUNDED

record order =
  code :: string
  status :: order_status
  expires :: int
  email :: string
  secret :: string
  payment_manual :: bool

record position =
  pos_pk :: nat
  pos_order :: string
  pos_item :: nat
  pos_secret :: string

record invoice =
  inv_pk :: nat
  inv_order :: string
  canceled :: bool
  is_cancellation :: bool
  refers :: "nat option"

record cached_ticket =
  ct_pk :: nat
  order_position :: nat

datatype logval = LStr string | LInt int | LNat nat | LBool bool

record log_entry =
  action :: string
  log_user :: string
  log_data :: "(string \<times> logval) list"

datatype level = SUCCESS | WARNING | ERROR

type_synonym message = "level \<times> string"

text \<open>
  Calls to the locking service and to the quota checker, in the order in which a view
  makes them.
\<close>

datatype service_call = LockAcquired | LockTimedOut | LockReleased | AvailabilityChecked int

text \<open>
  The world a request runs in: \<open>inst\<close> is the order object of the view
  (\<^verbatim>\<open>self.order\<close>), \<open>db_order\<close> its stored row, the tables hold the rows of all
  orders of the event, \<open>msgs\<close> is the operator's message queue, \<open>rng\<close> counts the
  secrets drawn so far.
\<close>

record world =
  inst :: order
  db_order :: order
  positions :: "position list"
  invoices :: "invoice list"
  cached_tickets :: "cached_ticket list"
  logs :: "log_entry list"
  msgs :: "message list"
  calls :: "service_call list"
  rng :: nat

datatype exn =
  QuotaExceededException string
  | SendMailException
  | LockTimeoutException
  | OrderError string
  | DoesNotExist
  | ValueError
  | KeyError
  | TypeError

datatype pyval = PyStr string | PyInt int

record request =
  req_method :: string
  POST :: "(string \<times> string) list"
  req_user :: string

datatype response =
  RedirectOrderUrl
  | RedirectBack
  | RedirectTo string
  | Render string
  | NotAllowed

datatype availability = Available | Unavailable string

section \<open>Helpers of every view\<close>

definition POST_get :: "request \<Rightarrow> string \<Rightarrow> string \<Rightarrow> string" where
  "POST_get req k dflt = (case map_of (POST req) k of None \<Rightarrow> dflt | Some v \<Rightarrow> v)"

definition add_message :: "level \<Rightarrow> string \<Rightarrow> world \<Rightarrow> world" where
  "add_message l m w = w\<lparr>msgs := msgs w @ [(l, m)]\<rparr>"

definition log_action :: "string \<Rightarrow> string \<Rightarrow> (string \<times> logval) list \<Rightarrow> world \<Rightarrow> world" where
  "log_action a u d w = w\<lparr>logs := logs w @ [\<lparr>action = a, log_user = u, log_data = d\<rparr>]\<rparr>"

text \<open>\<^verbatim>\<open>self.order.save()\<close>: the stored row becomes the object.\<close>

definition order_save :: "world \<Rightarrow> world" where
  "order_save w = w\<lparr>db_order := inst w\<rparr>"

definition record_call :: "service_call \<Rightarrow> world \<Rightarrow> world" where
  "record_call c w = w\<lparr>calls := calls w @ [c]\<rparr>"

text \<open>\<^verbatim>\<open>self.order.positions.all()\<close>: the rows of the position table that belong to the order.\<close>

definition order_positions :: "world \<Rightarrow> position list" where
  "order_positions w = filter (\<lambda>p. pos_order p = code (inst w)) (positions w)"

section \<open>Marking an order as paid\<close>

fun first_unavailable :: "(position \<Rightarrow> availability) \<Rightarrow> position list \<Rightarrow> string option" where
  "first_unavailable check [] = None"
| "first_unavailable check (p # ps) =
     (case check p of
        Unavailable reason \<Rightarrow> Some reason
      | Available \<Rightarrow> first_unavailable check ps)"

text \<open>
  Modelled from the spec: \<^verbatim>\<open>mark_order_paid\<close> of
  \<^verbatim>\<open>pretix.base.services.orders\<close> is not among the sources. Sections 4.1, 5 and 7:
  the availability check and the status change it allows are made while the lock of the
  event is held, and the lock fails with \<^verbatim>\<open>LockTimeoutException\<close> when it cannot be
  acquired in time. Section 4.2: the transition to Paid succeeds only if quota is still
  available for every position; on quota failure it is aborted and the order remains unpaid;
  each transition emits one audit entry and at most one notification, which is sent after
  the lock is released and whose failure does not roll back the state change.
  \<open>lock\<close> is what acquiring the lock gives (\<open>Some now_dt\<close>, or \<open>None\<close> on a timeout),
  \<open>check\<close> is the quota checker, \<open>mail_ok\<close> says whether the notification can be sent.
\<close>

definition mark_order_paid ::
  "int option \<Rightarrow> (int \<Rightarrow> position \<Rightarrow> availability) \<Rightarrow> bool \<Rightarrow> bool \<Rightarrow> string \<Rightarrow> world \<Rightarrow>
   exn option \<times> world" where
  "mark_order_paid lock check mail_ok manual usr w =
     (case lock of
        None \<Rightarrow> (Some LockTimeoutException, record_call LockTimedOut w)
      | Some now_dt \<Rightarrow>
          (let w0 = record_call (AvailabilityChecked now_dt) (record_call LockAcquired w) in
           case first_unavailable (check now_dt) (order_positions w0) of
             Some reason \<Rightarrow> (Some (QuotaExceededException reason), record_call LockReleased w0)
           | None \<Rightarrow>
               (let w1 = order_save
                           (w0\<lparr>inst := (inst w0)\<lparr>status := STATUS_PAID, payment_manual := manual\<rparr>\<rparr>);
                    w2 = log_action ''pretix.event.order.paid'' usr [(''manual'', LBool manual)] w1;
                    w3 = record_call LockReleased w2
                in (if mail_ok then None else Some SendMailException, w3))))"

text \<open>
  \<^verbatim>\<open>OrderTransition.post\<close>. The services \<^verbatim>\<open>mark_order_paid\<close>,
  \<^verbatim>\<open>cancel_order\<close> and the payment provider's refund are arguments: each takes the
  world and returns the exception it raised, if any, with the world it left. An exception
  the view does not catch is the result \<open>Inl\<close>.
\<close>

definition OrderTransition_post ::
  "(bool \<Rightarrow> string \<Rightarrow> world \<Rightarrow> exn option \<times> world) \<Rightarrow>
   (string \<Rightarrow> bool \<Rightarrow> world \<Rightarrow> world) \<Rightarrow>
   (request \<Rightarrow> world \<Rightarrow> string option \<times> world) \<Rightarrow>
   request \<Rightarrow> world \<Rightarrow> exn + (response \<times> world)" where
  "OrderTransition_post mop cancel_order refund_perform req w =
     (let to = POST_get req ''status'' '''' in
      if (status (inst w) = STATUS_PENDING \<or> status (inst w) = STATUS_EXPIRED) \<and> to = ''p'' then
        (case mop True (req_user req) w of
           (Some (QuotaExceededException e), w1) \<Rightarrow>
             Inr (RedirectOrderUrl, add_message ERROR e w1)
         | (Some SendMailException, w1) \<Rightarrow>
             Inr (RedirectOrderUrl, add_message WARNING
               ''The order has been marked as paid, but we were unable to send a confirmation mail.'' w1)
         | (Some x, w1) \<Rightarrow> Inl x
         | (None, w1) \<Rightarrow>
             Inr (RedirectOrderUrl, add_message SUCCESS ''The order has been marked as paid.'' w1))
      else if status (inst w) = STATUS_PENDING \<and> to = ''c'' then
        Inr (RedirectOrderUrl,
             add_message SUCCESS ''The order has been canceled.''
               (cancel_order (req_user req) (POST_get req ''send_email'' '''' = ''on'') w))
      else if status (inst w) = STATUS_PAID \<and> to = ''n'' then
        (let w1 = order_save (w\<lparr>inst := (inst w)\<lparr>status := STATUS_PENDING, payment_manual := True\<rparr>\<rparr>);
             w2 = log_action ''pretix.event.order.unpaid'' (req_user req) [] w1
         in Inr (RedirectOrderUrl, add_message SUCCESS ''The order has been marked as not paid.'' w2))
      else if status (inst w) = STATUS_PENDING \<and> to = ''e'' then
        (let w1 = order_save (w\<lparr>inst := (inst w)\<lparr>status := STATUS_EXPIRED\<rparr>\<rparr>);
             w2 = log_action ''pretix.event.order.expired'' (req_user req) [] w1
         in Inr (RedirectOrderUrl, add_message SUCCESS ''The order has been marked as expired.'' w2))
      else if status (inst w) = STATUS_PAID \<and> to = ''r'' then
        (case refund_perform req w of
           (Some ret, w1) \<Rightarrow> Inr (RedirectTo ret, w1)
         | (None, w1) \<Rightarrow> Inr (RedirectOrderUrl, w1))
      else Inr (RedirectOrderUrl, w))"

section \<open>Invoices\<close>

text \<open>
  \<^verbatim>\<open>self.order.invoices.get(pk=...)\<close>: the invoice of this order with that key, or
  \<^verbatim>\<open>Invoice.DoesNotExist\<close> (here \<open>None\<close>).
\<close>

definition order_invoices_get :: "nat \<Rightarrow> world \<Rightarrow> invoice option" where
  "order_invoices_get i w =
     find (\<lambda>v. inv_order v = code (inst w) \<and> inv_pk v = i) (invoices w)"

definition fresh_invoice_pk :: "world \<Rightarrow> nat" where
  "fresh_invoice_pk w = Suc (fold max (map inv_pk (invoices w)) 0)"

text \<open>
  Modelled from the spec: \<^verbatim>\<open>generate_cancellation\<close> and \<^verbatim>\<open>generate_invoice\<close>
  of \<^verbatim>\<open>pretix.base.services.invoices\<close> are not among the sources. Sections 3 and 6:
  \<open>Cancel(invoice)\<close> gives a cancellation record for the old invoice, whose canceled flag
  is then set; \<open>Generate(order)\<close> gives a new invoice of the order.
\<close>

definition generate_cancellation :: "invoice \<Rightarrow> world \<Rightarrow> invoice \<times> world" where
  "generate_cancellation iv w =
     (let c = \<lparr>inv_pk = fresh_invoice_pk w, inv_order = inv_order iv, canceled = False,
                is_cancellation = True, refers = Some (inv_pk iv)\<rparr>
      in (c, w\<lparr>invoices :=
                 map (\<lambda>v. if inv_pk v = inv_pk iv then v\<lparr>canceled := True\<rparr> else v) (invoices w)
                 @ [c]\<rparr>))"

definition generate_invoice :: "world \<Rightarrow> invoice \<times> world" where
  "generate_invoice w =
     (let n = \<lparr>inv_pk = fresh_invoice_pk w, inv_order = code (inst w), canceled = False,
                is_cancellation = False, refers = None\<rparr>
      in (n, w\<lparr>invoices := invoices w @ [n]\<rparr>))"

text \<open>\<^verbatim>\<open>OrderInvoiceRegenerate.post\<close>, with \<^verbatim>\<open>regenerate_invoice\<close> an argument.\<close>

definition OrderInvoiceRegenerate_post ::
  "(invoice \<Rightarrow> world \<Rightarrow> invoice \<times> world) \<Rightarrow> nat \<Rightarrow> request \<Rightarrow> world \<Rightarrow> response \<times> world" where
  "OrderInvoiceRegenerate_post regenerate_invoice i req w =
     (case order_invoices_get i w of
        None \<Rightarrow> (RedirectOrderUrl, add_message ERROR ''Unknown invoice.'' w)
      | Some iv \<Rightarrow>
          if canceled iv then
            (RedirectOrderUrl, add_message ERROR ''The invoice has already been canceled.'' w)
          else
            (case regenerate_invoice iv w of
               (inv1, w1) \<Rightarrow>
                 (RedirectOrderUrl,
                  add_message SUCCESS ''The invoice has been regenerated.''
                    (log_action ''pretix.event.order.invoice.regenerated'' (req_user req)
                       [(''invoice'', LNat (inv_pk inv1))] w1))))"

text \<open>
  \<^verbatim>\<open>OrderInvoiceReissue.post\<close>, with \<^verbatim>\<open>generate_cancellation\<close> and
  \<^verbatim>\<open>generate_invoice\<close> arguments.
\<close>

definition OrderInvoiceReissue_post ::
  "(invoice \<Rightarrow> world \<Rightarrow> invoice \<times> world) \<Rightarrow> (world \<Rightarrow> invoice \<times> world) \<Rightarrow>
   nat \<Rightarrow> request \<Rightarrow> world \<Rightarrow> response \<times> world" where
  "OrderInvoiceReissue_post gen_cancellation gen_invoice i req w =
     (case order_invoices_get i w of
        None \<Rightarrow> (RedirectOrderUrl, add_message ERROR ''Unknown invoice.'' w)
      | Some iv \<Rightarrow>
          if canceled iv then
            (RedirectOrderUrl, add_message ERROR ''The invoice has already been canceled.'' w)
          else
            (case gen_cancellation iv w of
               (c, w1) \<Rightarrow>
                 (case gen_invoice w1 of
                    (inv1, w2) \<Rightarrow>
                      (RedirectOrderUrl,
                       add_message SUCCESS ''The invoice has been reissued.''
                         (log_action ''pretix.event.order.invoice.reissued'' (req_user req)
                            [(''invoice'', LNat (inv_pk inv1))] w2)))))"

section \<open>Extending the payment term\<close>

text \<open>
  The form of \<^verbatim>\<open>OrderExtend\<close> is bound to the order object
  (\<^verbatim>\<open>ExtendForm(instance=self.order, data=...)\<close>): validating it writes the cleaned
  deadline into the object, \<^verbatim>\<open>form.save()\<close> stores the object. The stored row changes
  only on a save.
\<close>

record extend_form =
  ef_valid :: bool
  ef_expires :: int

definition extend_form_is_valid :: "extend_form \<Rightarrow> world \<Rightarrow> bool \<times> world" where
  "extend_form_is_valid f w =
     (if ef_valid f then (True, w\<lparr>inst := (inst w)\<lparr>expires := ef_expires f\<rparr>\<rparr>) else (False, w))"

definition form_save :: "world \<Rightarrow> world" where
  "form_save w = order_save w"

definition OrderExtend_get :: "world \<Rightarrow> response \<times> world" where
  "OrderExtend_get w = (Render ''pretixcontrol/order/extend.html'', w)"

text \<open>
  Modelled from the spec: \<^verbatim>\<open>Order._is_still_available\<close> is not among the sources.
  Sections 4.1 and 4.4: availability is re-validated for every existing position of the
  order as of the time the lock gives; the answer is \<^verbatim>\<open>True\<close> or the reason of the
  first position whose inventory is exhausted.
\<close>

definition is_still_available ::
  "(int \<Rightarrow> position \<Rightarrow> availability) \<Rightarrow> int \<Rightarrow> world \<Rightarrow> availability" where
  "is_still_available check now_dt w =
     (case first_unavailable (check now_dt) (order_positions w) of
        None \<Rightarrow> Available
      | Some reason \<Rightarrow> Unavailable reason)"

text \<open>
  \<^verbatim>\<open>OrderExtend.post\<close>. \<open>lock\<close> is what \<^verbatim>\<open>self.order.event.lock()\<close> does:
  \<open>Some now_dt\<close> when the lock is acquired, \<open>None\<close> when it raises
  \<^verbatim>\<open>LockTimeoutException\<close>. \<open>still_available\<close> is
  \<^verbatim>\<open>self.order._is_still_available\<close>, which returns \<^verbatim>\<open>True\<close> or the reason.
\<close>

definition OrderExtend_post ::
  "int option \<Rightarrow> (int \<Rightarrow> world \<Rightarrow> availability) \<Rightarrow> extend_form \<Rightarrow> request \<Rightarrow> world \<Rightarrow>
   response \<times> world" where
  "OrderExtend_post lock still_available form req w =
     (case extend_form_is_valid form w of
        (False, w0) \<Rightarrow> OrderExtend_get w0
      | (True, w0) \<Rightarrow>
          if status (inst w0) = STATUS_PENDING then
            (let w1 = add_message SUCCESS ''The payment term has been changed.'' w0;
                 w2 = log_action ''pretix.event.order.expirychanged'' (req_user req)
                        [(''expires'', LInt (expires (inst w1))), (''state_change'', LBool False)] w1;
                 w3 = form_save w2
             in (RedirectBack, w3))
          else
            (case lock of
               None \<Rightarrow>
                 (RedirectBack,
                  add_message ERROR
                    ''We were not able to process the request completely as the server was too busy.''
                    (record_call LockTimedOut w0))
             | Some now_dt \<Rightarrow>
                 (let w1 = record_call LockAcquired w0;
                      w2 = record_call (AvailabilityChecked now_dt) w1
                  in case still_available now_dt w2 of
                       Available \<Rightarrow>
                         (let w3 = form_save w2;
                              w4 = order_save (w3\<lparr>inst := (inst w3)\<lparr>status := STATUS_PENDING\<rparr>\<rparr>);
                              w5 = log_action ''pretix.event.order.expirychanged'' (req_user req)
                                     [(''expires'', LInt (expires (inst w4))),
                                      (''state_change'', LBool True)] w4;
                              w6 = add_message SUCCESS ''The payment term has been changed.'' w5
                          in (RedirectBack, record_call LockReleased w6))
                     | Unavailable reason \<Rightarrow>
                         (RedirectBack, record_call LockReleased (add_message ERROR reason w2)))))"

text \<open>
  \<^verbatim>\<open>OrderExtend.dispatch\<close>. The parent's dispatch is an argument; the call is
  \<^verbatim>\<open>super().dispatch(request, *kwargs, **kwargs)\<close>, and unpacking a dictionary with
  one star gives its keys.
\<close>

type_synonym 'r parent_dispatch =
  "request \<Rightarrow> pyval list \<Rightarrow> (string \<times> pyval) list \<Rightarrow> world \<Rightarrow> 'r"

definition OrderExtend_dispatch ::
  "(response \<times> world) parent_dispatch \<Rightarrow> request \<Rightarrow> pyval list \<Rightarrow> (string \<times> pyval) list \<Rightarrow>
   world \<Rightarrow> response \<times> world" where
  "OrderExtend_dispatch super_dispatch req args kwargs w =
     (if status (inst w) \<noteq> STATUS_PENDING \<and> status (inst w) \<noteq> STATUS_EXPIRED then
        (RedirectBack, add_message ERROR ''This action is only allowed for pending orders.'' w)
      else super_dispatch req (map (\<lambda>kv. PyStr (fst kv)) kwargs) kwargs w)"

section \<open>Changing the contact address\<close>

record contact_form =
  ctf_valid :: bool
  ctf_email :: string
  ctf_regenerate_secrets :: bool

definition contact_form_is_valid :: "contact_form \<Rightarrow> world \<Rightarrow> bool \<times> world" where
  "contact_form_is_valid f w =
     (if ctf_valid f then (True, w\<lparr>inst := (inst w)\<lparr>email := ctf_email f\<rparr>\<rparr>) else (False, w))"

text \<open>
  The loop over \<^verbatim>\<open>self.order.positions.all()\<close>: every position of the order gets the
  next secret of the generator and is saved; \<open>n\<close> counts the secrets drawn.
\<close>

fun regenerate_position_secrets ::
  "(nat \<Rightarrow> string) \<Rightarrow> string \<Rightarrow> position list \<Rightarrow> nat \<Rightarrow> position list \<times> nat" where
  "regenerate_position_secrets gen c [] n = ([], n)"
| "regenerate_position_secrets gen c (p # ps) n =
     (if pos_order p = c then
        (case regenerate_position_secrets gen c ps (Suc n) of
           (ps', n') \<Rightarrow> (p\<lparr>pos_secret := gen n\<rparr> # ps', n'))
      else
        (case regenerate_position_secrets gen c ps n of
           (ps', n') \<Rightarrow> (p # ps', n')))"

text \<open>\<^verbatim>\<open>order_position__order=self.order\<close>: the ticket's position is one of the order.\<close>

definition ticket_of_order :: "world \<Rightarrow> cached_ticket \<Rightarrow> bool" where
  "ticket_of_order w t =
     list_ex (\<lambda>p. pos_pk p = order_position t \<and> pos_order p = code (inst w)) (positions w)"

text \<open>
  \<^verbatim>\<open>OrderContactChange.post\<close>. \<^verbatim>\<open>generate_secret\<close> and
  \<^verbatim>\<open>generate_position_secret\<close> are random: here each is a function of the number of
  secrets drawn so far.
\<close>

definition OrderContactChange_post ::
  "(nat \<Rightarrow> string) \<Rightarrow> (nat \<Rightarrow> string) \<Rightarrow> contact_form \<Rightarrow> request \<Rightarrow> world \<Rightarrow> response \<times> world" where
  "OrderContactChange_post generate_secret generate_position_secret form req w =
     (let old_email = email (inst w) in
      case contact_form_is_valid form w of
        (False, w0) \<Rightarrow> (Render ''pretixcontrol/order/change_contact.html'', w0)
      | (True, w0) \<Rightarrow>
          (let w1 = log_action ''pretix.event.order.contact.changed'' (req_user req)
                      [(''old_email'', LStr old_email), (''new_email'', LStr (ctf_email form))] w0;
               w2 = (if ctf_regenerate_secrets form then
                       (let wa = w1\<lparr>inst := (inst w1)\<lparr>secret := generate_secret (rng w1)\<rparr>,
                                     rng := Suc (rng w1)\<rparr>;
                            wb = (case regenerate_position_secrets generate_position_secret
                                         (code (inst wa)) (positions wa) (rng wa) of
                                    (ps, n) \<Rightarrow> wa\<lparr>positions := ps, rng := n\<rparr>);
                            wc = wb\<lparr>cached_tickets :=
                                      filter (\<lambda>t. \<not> ticket_of_order wb t) (cached_tickets wb)\<rparr>
                        in log_action ''pretix.event.order.secret.changed'' (req_user req) [] wc)
                     else w1);
               w3 = form_save w2
           in (RedirectOrderUrl, add_message SUCCESS ''The order has been changed.'' w3)))"

section \<open>Changing an order\<close>

text \<open>
  \<^verbatim>\<open>OrderChange.dispatch\<close> and \<^verbatim>\<open>OrderChange.post\<close>. The forms carry what the
  view reads of them: whether Django validated them and their cleaned data. The fields
  \<^verbatim>\<open>subevent\<close> and \<^verbatim>\<open>addon_to\<close> are not in every form: for them \<open>None\<close> is a
  cleaned data without the key and \<open>Some v\<close> the value \<open>v\<close> under it. The view reads them
  of the add form with \<^verbatim>\<open>cleaned_data.get\<close>, which gives \<^verbatim>\<open>None\<close> for a missing
  key, and reads \<^verbatim>\<open>cleaned_data['subevent']\<close> of a position's form, which raises
  \<^verbatim>\<open>KeyError\<close> for it.
\<close>

record add_form =
  af_valid :: bool
  af_do :: bool
  af_itemvar :: string
  af_price :: "int option"
  af_addon_to :: "nat option option"
  af_subevent :: "nat option option"
  af_custom_error :: "string option"

record change_form =
  cf_valid :: bool
  cf_operation :: string
  cf_itemvar :: string
  cf_price :: "int option"
  cf_subevent :: "nat option option"

definition cleaned_get :: "'a option option \<Rightarrow> 'a option" where
  "cleaned_get field = (case field of None \<Rightarrow> None | Some v \<Rightarrow> v)"

record change_position =
  cp_pk :: nat
  cp_form :: change_form
  cp_custom_error :: "string option"

record change_view =
  cv_add_form :: add_form
  cv_positions :: "change_position list"

text \<open>
  Modelled from the spec: the \<^verbatim>\<open>OrderChangeManager\<close> of
  \<^verbatim>\<open>pretix.base.services.orders\<close> is not among the sources. Sections 3 and 4.3: each
  mutating call validates early and, when that passes, records one pending operation
  tagged with its position; otherwise it fails with an \<^verbatim>\<open>OrderError\<close> and records
  nothing. \<open>Commit()\<close> works on the recorded operations and is \<open>ok\<close> or fails with an
  \<^verbatim>\<open>OrderError\<close>. The early validation and the commit are arguments;
  \<open>commit_calls\<close> counts the calls of \<open>Commit()\<close> on the manager.
\<close>

datatype operation =
  AddPosition nat "nat option" "int option" "nat option" "nat option"
  | ChangeItem nat nat "nat option"
  | ChangePrice nat "int option"
  | ChangeSubevent nat "nat option"
  | CancelPosition nat

record ocm =
  operations :: "operation list"
  commit_calls :: nat

type_synonym early_validation = "ocm \<Rightarrow> operation \<Rightarrow> string option"

type_synonym committer = "operation list \<Rightarrow> world \<Rightarrow> string option \<times> world"

definition OrderChangeManager :: ocm where
  "OrderChangeManager = \<lparr>operations = [], commit_calls = 0\<rparr>"

definition ocm_record :: "early_validation \<Rightarrow> ocm \<Rightarrow> operation \<Rightarrow> string + ocm" where
  "ocm_record validate m x =
     (case validate m x of
        Some e \<Rightarrow> Inl e
      | None \<Rightarrow> Inr (m\<lparr>operations := operations m @ [x]\<rparr>))"

definition ocm_commit :: "committer \<Rightarrow> ocm \<Rightarrow> world \<Rightarrow> string option \<times> ocm \<times> world" where
  "ocm_commit commit m w =
     (case commit (operations m) w of
        (r, w1) \<Rightarrow> (r, m\<lparr>commit_calls := Suc (commit_calls m)\<rparr>, w1))"

text \<open>\<^verbatim>\<open>str.split\<close> on one character.\<close>

fun split_on :: "char \<Rightarrow> string \<Rightarrow> string list" where
  "split_on c [] = [[]]"
| "split_on c (x # xs) =
     (if x = c then [] # split_on c xs
      else (case split_on c xs of
              [] \<Rightarrow> [[x]]
            | y # ys \<Rightarrow> (x # y) # ys))"

text \<open>
  The lines both \<^verbatim>\<open>_process_add\<close> and \<^verbatim>\<open>_process_change\<close> have: split
  \<^verbatim>\<open>itemvar\<close> at the dash (the unpacking into two names raises
  \<^verbatim>\<open>ValueError\<close> on any other number of parts), fetch the item, and the variation when
  its key is not empty. The two queries are arguments and may raise.
\<close>

definition lookup_itemvar ::
  "(string \<Rightarrow> exn + nat) \<Rightarrow> (string \<Rightarrow> nat \<Rightarrow> exn + nat) \<Rightarrow> string \<Rightarrow> exn + (nat \<times> nat option)" where
  "lookup_itemvar get_item get_variation itemvar =
     (case (if CHR ''-'' \<in> set itemvar then
              (case split_on CHR ''-'' itemvar of
                 [itemid, varid] \<Rightarrow> Inr (itemid, Some varid)
               | _ \<Rightarrow> Inl ValueError)
            else Inr (itemvar, None)) of
        Inl x \<Rightarrow> Inl x
      | Inr (itemid, varid) \<Rightarrow>
          (case get_item itemid of
             Inl x \<Rightarrow> Inl x
           | Inr item \<Rightarrow>
               (case varid of
                  None \<Rightarrow> Inr (item, None)
                | Some v \<Rightarrow>
                    if v = [] then Inr (item, None)
                    else (case get_variation v item of
                            Inl x \<Rightarrow> Inl x
                          | Inr variation \<Rightarrow> Inr (item, Some variation)))))"

text \<open>
  \<^verbatim>\<open>_process_add\<close>: the result is the returned flag, the add form and the manager; an
  exception that is not caught is \<open>Inl\<close>. The queries are made outside the
  \<^verbatim>\<open>try\<close>.
\<close>

definition process_add ::
  "early_validation \<Rightarrow> (string \<Rightarrow> exn + nat) \<Rightarrow> (string \<Rightarrow> nat \<Rightarrow> exn + nat) \<Rightarrow>
   add_form \<Rightarrow> ocm \<Rightarrow> exn + (bool \<times> add_form \<times> ocm)" where
  "process_add validate get_item get_variation af m =
     (if \<not> af_valid af then Inr (False, af, m)
      else if af_do af then
        (case lookup_itemvar get_item get_variation (af_itemvar af) of
           Inl x \<Rightarrow> Inl x
         | Inr (item, variation) \<Rightarrow>
             (case ocm_record validate m
                     (AddPosition item variation (af_price af) (cleaned_get (af_addon_to af))
                        (cleaned_get (af_subevent af))) of
                Inl e \<Rightarrow> Inr (False, af\<lparr>af_custom_error := Some e\<rparr>, m)
              | Inr m1 \<Rightarrow> Inr (True, af, m1)))
      else Inr (True, af, m))"

text \<open>
  What the body of the \<^verbatim>\<open>try\<close> in \<^verbatim>\<open>_process_change\<close> asks of the manager for
  one position: nothing when the operation of its form is none of the four. The subscript
  \<^verbatim>\<open>cleaned_data['subevent']\<close> raises \<^verbatim>\<open>KeyError\<close> when the form has no such
  field.
\<close>

definition position_operation ::
  "(string \<Rightarrow> exn + nat) \<Rightarrow> (string \<Rightarrow> nat \<Rightarrow> exn + nat) \<Rightarrow> change_position \<Rightarrow>
   exn + operation option" where
  "position_operation get_item get_variation p =
     (let f = cp_form p in
      if cf_operation f = ''product'' then
        (case lookup_itemvar get_item get_variation (cf_itemvar f) of
           Inl x \<Rightarrow> Inl x
         | Inr (item, variation) \<Rightarrow> Inr (Some (ChangeItem (cp_pk p) item variation)))
      else if cf_operation f = ''price'' then Inr (Some (ChangePrice (cp_pk p) (cf_price f)))
      else if cf_operation f = ''subevent'' then
        (case cf_subevent f of
           None \<Rightarrow> Inl KeyError
         | Some subevent \<Rightarrow> Inr (Some (ChangeSubevent (cp_pk p) subevent)))
      else if cf_operation f = ''cancel'' then Inr (Some (CancelPosition (cp_pk p)))
      else Inr None)"

text \<open>
  \<^verbatim>\<open>_process_change\<close>: the loop returns \<^verbatim>\<open>False\<close> at the first position whose form
  is invalid or whose operation raises \<^verbatim>\<open>OrderError\<close>; the \<^verbatim>\<open>except\<close> clause
  also catches an \<^verbatim>\<open>OrderError\<close> of the queries, which are inside the \<^verbatim>\<open>try\<close>.
\<close>

fun process_change ::
  "early_validation \<Rightarrow> (string \<Rightarrow> exn + nat) \<Rightarrow> (string \<Rightarrow> nat \<Rightarrow> exn + nat) \<Rightarrow>
   change_position list \<Rightarrow> ocm \<Rightarrow> exn + (bool \<times> change_position list \<times> ocm)" where
  "process_change validate get_item get_variation [] m = Inr (True, [], m)"
| "process_change validate get_item get_variation (p # ps) m =
     (if \<not> cf_valid (cp_form p) then Inr (False, p # ps, m)
      else
        (case position_operation get_item get_variation p of
           Inl (OrderError e) \<Rightarrow> Inr (False, p\<lparr>cp_custom_error := Some e\<rparr> # ps, m)
         | Inl x \<Rightarrow> Inl x
         | Inr None \<Rightarrow>
             (case process_change validate get_item get_variation ps m of
                Inl x \<Rightarrow> Inl x
              | Inr (ok, ps1, m1) \<Rightarrow> Inr (ok, p # ps1, m1))
         | Inr (Some x) \<Rightarrow>
             (case ocm_record validate m x of
                Inl e \<Rightarrow> Inr (False, p\<lparr>cp_custom_error := Some e\<rparr> # ps, m)
              | Inr m0 \<Rightarrow>
                  (case process_change validate get_item get_variation ps m0 of
                     Inl x \<Rightarrow> Inl x
                   | Inr (ok, ps1, m1) \<Rightarrow> Inr (ok, p # ps1, m1)))))"

text \<open>
  The result of a view of \<^verbatim>\<open>OrderChange\<close>: the response, the forms as they are
  rendered, the world, and the change manager if one was created.
\<close>

type_synonym change_result = "response \<times> change_view \<times> world \<times> ocm option"

definition OrderChange_post ::
  "early_validation \<Rightarrow> committer \<Rightarrow> (string \<Rightarrow> exn + nat) \<Rightarrow> (string \<Rightarrow> nat \<Rightarrow> exn + nat) \<Rightarrow>
   change_view \<Rightarrow> request \<Rightarrow> world \<Rightarrow> exn + change_result" where
  "OrderChange_post validate commit get_item get_variation cv req w =
     (let m = OrderChangeManager in
      case process_add validate get_item get_variation (cv_add_form cv) m of
        Inl x \<Rightarrow> Inl x
      | Inr (ok1, af1, m1) \<Rightarrow>
          (case (if ok1 then process_change validate get_item get_variation (cv_positions cv) m1
                 else Inr (False, cv_positions cv, m1)) of
             Inl x \<Rightarrow> Inl x
           | Inr (form_valid, ps1, m2) \<Rightarrow>
               (let cv1 = \<lparr>cv_add_form = af1, cv_positions = ps1\<rparr> in
                if \<not> form_valid then
                  Inr (Render ''pretixcontrol/order/change.html'', cv1,
                       add_message ERROR ''An error occured. Please see the details below.'' w,
                       Some m2)
                else
                  (case ocm_commit commit m2 w of
                     (Some e, m3, w1) \<Rightarrow>
                       Inr (Render ''pretixcontrol/order/change.html'', cv1,
                            add_message ERROR e w1, Some m3)
                   | (None, m3, w1) \<Rightarrow>
                       Inr (RedirectBack, cv1,
                            add_message SUCCESS
                              ''The order has been changed and the user has been notified.'' w1,
                            Some m3)))))"

text \<open>
  \<^verbatim>\<open>OrderChange.dispatch\<close>: the parent's dispatch, which routes the request to
  \<^verbatim>\<open>post\<close> or \<^verbatim>\<open>get\<close>, is an argument.
\<close>

definition OrderChange_dispatch ::
  "(request \<Rightarrow> pyval list \<Rightarrow> (string \<times> pyval) list \<Rightarrow> change_view \<Rightarrow> world \<Rightarrow> exn + change_result) \<Rightarrow>
   request \<Rightarrow> pyval list \<Rightarrow> (string \<times> pyval) list \<Rightarrow> change_view \<Rightarrow> world \<Rightarrow> exn + change_result" where
  "OrderChange_dispatch super_dispatch req args kwargs cv w =
     (if status (inst w) \<noteq> STATUS_PENDING \<and> status (inst w) \<noteq> STATUS_PAID then
        Inr (RedirectBack, cv,
             add_message ERROR ''This action is only allowed for pending or paid orders.'' w, None)
      else super_dispatch req args kwargs cv w)"

section \<open>A concrete event\<close>

text \<open>Order ABC12 has two positions; a third position belongs to another order.\<close>

definition order_ABC12 :: order where
  "order_ABC12 = \<lparr>code = ''ABC12'', status = STATUS_PENDING, expires = 100,
     email = ''a@example.org'', secret = ''s0'', payment_manual = False\<rparr>"

definition world_ABC12 :: world where
  "world_ABC12 = \<lparr>inst = order_ABC12, db_order = order_ABC12,
     positions = [\<lparr>pos_pk = 1, pos_order = ''ABC12'', pos_item = 10, pos_secret = ''p1''\<rparr>,
                  \<lparr>pos_pk = 2, pos_order = ''ABC12'', pos_item = 11, pos_secret = ''p2''\<rparr>,
                  \<lparr>pos_pk = 3, pos_order = ''XYZ99'', pos_item = 10, pos_secret = ''p3''\<rparr>],
     invoices = [], cached_tickets = [], logs = [], msgs = [], calls = [], rng = 0\<rparr>"

definition sold_out :: "nat \<Rightarrow> position \<Rightarrow> availability" where
  "sold_out i p = (if pos_item p = i then Unavailable ''The item is sold out.'' else Available)"

definition sold_out_at :: "nat \<Rightarrow> int \<Rightarrow> position \<Rightarrow> availability" where
  "sold_out_at i now_dt p = sold_out i p"

definition cancel_order_unused :: "string \<Rightarrow> bool \<Rightarrow> world \<Rightarrow> world" where
  "cancel_order_unused usr send_mail w = w"

definition refund_unused :: "request \<Rightarrow> world \<Rightarrow> string option \<times> world" where
  "refund_unused req w = (None, w)"

definition post_status :: "string \<Rightarrow> request" where
  "post_status to = \<lparr>req_method = ''POST'', POST = [(''status'', to)], req_user = ''admin''\<rparr>"

definition world_invoiced :: world where
  "world_invoiced = world_ABC12\<lparr>invoices :=
     [\<lparr>inv_pk = 1, inv_order = ''ABC12'', canceled = True, is_cancellation = False, refers = None\<rparr>,
      \<lparr>inv_pk = 2, inv_order = ''ABC12'', canceled = False, is_cancellation = True, refers = Some 1\<rparr>,
      \<lparr>inv_pk = 3, inv_order = ''ABC12'', canceled = False, is_cancellation = False, refers = None\<rparr>,
      \<lparr>inv_pk = 4, inv_order = ''XYZ99'', canceled = False, is_cancellation = False, refers = None\<rparr>]\<rparr>"

definition post_empty :: request where
  "post_empty = \<lparr>req_method = ''POST'', POST = [], req_user = ''admin''\<rparr>"


definition world_expired :: world where
  "world_expired = world_ABC12\<lparr>inst := order_ABC12\<lparr>status := STATUS_EXPIRED\<rparr>,
                                db_order := order_ABC12\<lparr>status := STATUS_EXPIRED\<rparr>\<rparr>"

definition extend_to :: "int \<Rightarrow> extend_form" where
  "extend_to d = \<lparr>ef_valid = True, ef_expires = d\<rparr>"


definition count_args_dispatch :: "(response \<times> world) parent_dispatch" where
  "count_args_dispatch req args kwargs w = (Render (replicate (length args) CHR ''*''), w)"

definition world_ticketed :: world where
  "world_ticketed = world_ABC12\<lparr>cached_tickets :=
     [\<lparr>ct_pk = 1, order_position = 1\<rparr>, \<lparr>ct_pk = 2, order_position = 3\<rparr>,
      \<lparr>ct_pk = 3, order_position = 2\<rparr>], rng := 7\<rparr>"

definition contact_to :: "string \<Rightarrow> bool \<Rightarrow> contact_form" where
  "contact_to e r = \<lparr>ctf_valid = True, ctf_email = e, ctf_regenerate_secrets = r\<rparr>"

definition numbered_secret :: "string \<Rightarrow> nat \<Rightarrow> string" where
  "numbered_secret pre n = pre @ replicate n CHR ''x''"

definition change_view_ABC12 :: change_view where
  "change_view_ABC12 =
     \<lparr>cv_add_form = \<lparr>af_valid = True, af_do = False, af_itemvar = ''10'', af_price = None,
                      af_addon_to = None, af_subevent = None, af_custom_error = None\<rparr>,
      cv_positions =
        [\<lparr>cp_pk = 1, cp_form = \<lparr>cf_valid = True, cf_operation = ''price'', cf_itemvar = '''',
                                cf_price = Some 800, cf_subevent = None\<rparr>, cp_custom_error = None\<rparr>,
         \<lparr>cp_pk = 2, cp_form = \<lparr>cf_valid = True, cf_operation = ''cancel'', cf_itemvar = '''',
                                cf_price = None, cf_subevent = None\<rparr>, cp_custom_error = None\<rparr>]\<rparr>"


section \<open>The operations of a batch\<close>












section \<open>Properties\<close>

lemma first_unavailable_Some:
  "p \<in> set ps \<Longrightarrow> check p \<noteq> Available \<Longrightarrow> \<exists>r. first_unavailable check ps = Some r"
  by (induction ps) (auto split: availability.splits)

lemma first_unavailable_None:
  "(\<forall>p \<in> set ps. check p = Available) \<Longrightarrow> first_unavailable check ps = None"
  by (induction ps) auto

lemma first_unavailable_sound:
  "first_unavailable check ps = Some r \<Longrightarrow> \<exists>q \<in> set ps. check q = Unavailable r"
  by (induction ps) (auto split: availability.splits)

subsection \<open>Pending or Expired to Paid\<close>

text \<open>
  C1, as amended. For an order that is Pending or Expired, the request to mark it paid
  while the quota of some position is exhausted, once the lock of the event is acquired,
  fails with \<^verbatim>\<open>QuotaExceededException\<close>; the view shows the reason of an exhausted
  position as an error message and changes nothing of the order: its status, in the object
  and in the stored row, is what it was, Pending or Expired and not Paid.
\<close>

theorem mark_paid_quota_exceeded:
  assumes st: "status (inst w) = STATUS_PENDING \<or> status (inst w) = STATUS_EXPIRED"
    and to: "POST_get req ''status'' '''' = ''p''"
    and p: "p \<in> set (order_positions w)" and ex: "check now_dt p \<noteq> Available"
  shows "case OrderTransition_post (mark_order_paid (Some now_dt) check mail_ok)
             cancel_order refund_perform req w of
      Inl x \<Rightarrow> False
    | Inr (resp, w') \<Rightarrow>
        resp = RedirectOrderUrl
      \<and> (\<exists>reason.
            fst (mark_order_paid (Some now_dt) check mail_ok True (req_user req) w)
              = Some (QuotaExceededException reason)
          \<and> (\<exists>q \<in> set (order_positions w). check now_dt q = Unavailable reason)
          \<and> w' = w\<lparr>calls := calls w @ [LockAcquired, AvailabilityChecked now_dt, LockReleased],
                     msgs := msgs w @ [(ERROR, reason)]\<rparr>)
      \<and> inst w' = inst w
      \<and> db_order w' = db_order w
      \<and> logs w' = logs w
      \<and> status (inst w') = status (inst w)
      \<and> status (db_order w') = status (db_order w)
      \<and> (status (inst w') = STATUS_PENDING \<or> status (inst w') = STATUS_EXPIRED)
      \<and> status (inst w') \<noteq> STATUS_PAID"
proof -
  have op: "order_positions (record_call c (record_call d w)) = order_positions w" for c d
    by (simp add: order_positions_def record_call_def)
  from p ex obtain r
    where r: "first_unavailable (check now_dt) (order_positions w) = Some r"
    using first_unavailable_Some [of p "order_positions w" "check now_dt"] by blast
  have m: "mark_order_paid (Some now_dt) check mail_ok True (req_user req) w
      = (Some (QuotaExceededException r),
         w\<lparr>calls := calls w @ [LockAcquired, AvailabilityChecked now_dt, LockReleased]\<rparr>)"
    by (simp add: mark_order_paid_def op r Let_def) (simp add: record_call_def)
  have q: "\<exists>q \<in> set (order_positions w). check now_dt q = Unavailable r"
    using r first_unavailable_sound by blast
  have "OrderTransition_post (mark_order_paid (Some now_dt) check mail_ok)
          cancel_order refund_perform req w
        = Inr (RedirectOrderUrl,
               w\<lparr>calls := calls w @ [LockAcquired, AvailabilityChecked now_dt, LockReleased],
                 msgs := msgs w @ [(ERROR, r)]\<rparr>)"
    using st to by (auto simp: OrderTransition_post_def m add_message_def)
  with m q st show ?thesis by auto
qed

theorem mark_paid_quota_exceeded_witness:
  "OrderTransition_post (mark_order_paid (Some 50) (sold_out_at 11) True)
       cancel_order_unused refund_unused (post_status ''p'') world_ABC12
     = Inr (RedirectOrderUrl,
            world_ABC12\<lparr>calls := [LockAcquired, AvailabilityChecked 50, LockReleased],
              msgs := [(ERROR, ''The item is sold out.'')]\<rparr>)
   \<and> status (inst world_ABC12) = STATUS_PENDING"
  using mark_paid_quota_exceeded [where w = world_ABC12 and req = "post_status ''p''"
      and p = "\<lparr>pos_pk = 2, pos_order = ''ABC12'', pos_item = 11, pos_secret = ''p2''\<rparr>"
      and check = "sold_out_at 11" and now_dt = 50 and mail_ok = True
      and cancel_order = cancel_order_unused and refund_perform = refund_unused]
  by (auto simp: world_ABC12_def order_ABC12_def post_status_def POST_get_def order_positions_def
      sold_out_at_def sold_out_def mark_order_paid_def record_call_def split: sum.splits)

text \<open>
  C1 as the claim states it, for every such request, fails when the lock of the event is
  busy: position 2 of the Pending order ABC12 is sold out, the service raises
  \<^verbatim>\<open>LockTimeoutException\<close> before any quota is checked, and the view, which catches
  only the quota and the mail exception, lets it through: no quota error is shown.
\<close>

theorem mark_paid_lock_busy_counterexample:
  "status (inst world_ABC12) = STATUS_PENDING
   \<and> POST_get (post_status ''p'') ''status'' '''' = ''p''
   \<and> \<lparr>pos_pk = 2, pos_order = ''ABC12'', pos_item = 11, pos_secret = ''p2''\<rparr>
        \<in> set (order_positions world_ABC12)
   \<and> sold_out_at 11 50 \<lparr>pos_pk = 2, pos_order = ''ABC12'', pos_item = 11, pos_secret = ''p2''\<rparr>
        = Unavailable ''The item is sold out.''
   \<and> fst (mark_order_paid None (sold_out_at 11) True True ''admin'' world_ABC12)
        = Some LockTimeoutException
   \<and> OrderTransition_post (mark_order_paid None (sold_out_at 11) True)
        cancel_order_unused refund_unused (post_status ''p'') world_ABC12
        = Inl LockTimeoutException"
  by (simp add: world_ABC12_def order_ABC12_def post_status_def POST_get_def order_positions_def
      sold_out_at_def sold_out_def mark_order_paid_def record_call_def OrderTransition_post_def)

text \<open>
  C4. When the transition succeeds (the lock is acquired and every position is still
  available) and the confirmation mail cannot be sent, the order is Paid in the object and
  in the stored row, and the only message is a warning: the failure of the notification
  does not undo the transition.
\<close>

theorem mark_paid_mail_failure:
  assumes st: "status (inst w) = STATUS_PENDING \<or> status (inst w) = STATUS_EXPIRED"
    and to: "POST_get req ''status'' '''' = ''p''"
    and av: "\<forall>p \<in> set (order_positions w). check now_dt p = Available"
  shows "case OrderTransition_post (mark_order_paid (Some now_dt) check False)
             cancel_order refund_perform req w of
      Inl x \<Rightarrow> False
    | Inr (resp, w') \<Rightarrow>
        resp = RedirectOrderUrl
      \<and> fst (mark_order_paid (Some now_dt) check False True (req_user req) w) = Some SendMailException
      \<and> status (inst w') = STATUS_PAID
      \<and> status (db_order w') = STATUS_PAID
      \<and> calls w' = calls w @ [LockAcquired, AvailabilityChecked now_dt, LockReleased]
      \<and> msgs w' = msgs w @ [(WARNING,
           ''The order has been marked as paid, but we were unable to send a confirmation mail.'')]"
proof -
  have op: "order_positions (record_call c (record_call d w)) = order_positions w" for c d
    by (simp add: order_positions_def record_call_def)
  have n: "first_unavailable (check now_dt) (order_positions w) = None"
    using av by (rule first_unavailable_None)
  have m: "mark_order_paid (Some now_dt) check False True (req_user req) w
      = (Some SendMailException,
         w\<lparr>inst := (inst w)\<lparr>status := STATUS_PAID, payment_manual := True\<rparr>,
           db_order := (inst w)\<lparr>status := STATUS_PAID, payment_manual := True\<rparr>,
           logs := logs w @ [\<lparr>action = ''pretix.event.order.paid'', log_user = req_user req,
                              log_data = [(''manual'', LBool True)]\<rparr>],
           calls := calls w @ [LockAcquired, AvailabilityChecked now_dt, LockReleased]\<rparr>)"
    by (simp add: mark_order_paid_def op n Let_def)
       (simp add: record_call_def log_action_def order_save_def)
  show ?thesis
    using st to by (auto simp: OrderTransition_post_def m add_message_def)
qed

theorem mark_paid_mail_failure_witness:
  "status (inst world_ABC12) = STATUS_PENDING \<and>
   (case OrderTransition_post (mark_order_paid (Some 50) (sold_out_at 12) False)
       cancel_order_unused refund_unused (post_status ''p'') world_ABC12 of
      Inl x \<Rightarrow> False
    | Inr (resp, w') \<Rightarrow> status (db_order w') = STATUS_PAID
     \<and> msgs w' = [(WARNING,
         ''The order has been marked as paid, but we were unable to send a confirmation mail.'')])"
  using mark_paid_mail_failure [where w = world_ABC12 and req = "post_status ''p''"
      and check = "sold_out_at 12" and now_dt = 50
      and cancel_order = cancel_order_unused and refund_perform = refund_unused]
  by (auto simp: world_ABC12_def order_ABC12_def post_status_def POST_get_def order_positions_def
      sold_out_at_def sold_out_def split: sum.splits)

subsection \<open>Invoices\<close>

lemma fold_max_ge: "(a::nat) \<le> fold max xs a"
  by (induction xs arbitrary: a) (auto intro: order_trans [OF max.cobounded2])

lemma fold_max_upper: "(x::nat) \<in> set xs \<Longrightarrow> x \<le> fold max xs a"
proof (induction xs arbitrary: a)
  case Nil
  then show ?case by simp
next
  case (Cons y ys)
  show ?case
  proof (cases "x = y")
    case True
    have "y \<le> max y a" by simp
    also have "\<dots> \<le> fold max ys (max y a)" by (rule fold_max_ge)
    finally show ?thesis using True by simp
  next
    case False
    with Cons show ?thesis by simp
  qed
qed

lemma fresh_invoice_pk_fresh: "v \<in> set (invoices w) \<Longrightarrow> inv_pk v < fresh_invoice_pk w"
  unfolding fresh_invoice_pk_def
  using fold_max_upper [of "inv_pk v" "map inv_pk (invoices w)" 0] by auto

text \<open>
  C5. For an invoice of the order whose canceled flag is set, regenerating and reissuing are
  both rejected with an error message, and nothing else changes: no cancellation record, no
  new invoice, no audit entry, whatever the invoice services would have done.
\<close>

theorem canceled_invoice_rejected:
  assumes g: "order_invoices_get i w = Some iv" and c: "canceled iv"
  shows "OrderInvoiceRegenerate_post regenerate_invoice i req w
           = (RedirectOrderUrl, w\<lparr>msgs := msgs w @ [(ERROR, ''The invoice has already been canceled.'')]\<rparr>)
       \<and> OrderInvoiceReissue_post gen_cancellation gen_invoice i req w
           = (RedirectOrderUrl, w\<lparr>msgs := msgs w @ [(ERROR, ''The invoice has already been canceled.'')]\<rparr>)
       \<and> invoices (snd (OrderInvoiceRegenerate_post regenerate_invoice i req w)) = invoices w
       \<and> logs (snd (OrderInvoiceRegenerate_post regenerate_invoice i req w)) = logs w
       \<and> invoices (snd (OrderInvoiceReissue_post gen_cancellation gen_invoice i req w)) = invoices w
       \<and> logs (snd (OrderInvoiceReissue_post gen_cancellation gen_invoice i req w)) = logs w"
  using g c
  by (simp add: OrderInvoiceRegenerate_post_def OrderInvoiceReissue_post_def add_message_def)

theorem canceled_invoice_rejected_witness:
  "OrderInvoiceRegenerate_post (\<lambda>iv w. generate_invoice (snd (generate_cancellation iv w))) 1
       post_empty world_invoiced
     = (RedirectOrderUrl, world_invoiced\<lparr>msgs := [(ERROR, ''The invoice has already been canceled.'')]\<rparr>)
   \<and> OrderInvoiceReissue_post generate_cancellation generate_invoice 1 post_empty world_invoiced
     = (RedirectOrderUrl, world_invoiced\<lparr>msgs := [(ERROR, ''The invoice has already been canceled.'')]\<rparr>)"
  using canceled_invoice_rejected [of 1 world_invoiced
      "\<lparr>inv_pk = 1, inv_order = ''ABC12'', canceled = True, is_cancellation = False, refers = None\<rparr>"
      "\<lambda>iv w. generate_invoice (snd (generate_cancellation iv w))" post_empty
      generate_cancellation generate_invoice]
  by (simp add: world_invoiced_def world_ABC12_def order_ABC12_def order_invoices_get_def)

text \<open>
  C6. Reissuing an invoice that is not canceled calls the cancellation of the old invoice
  first and generates the new invoice in the world the cancellation left, then logs the
  reissue with the key of the new invoice. With the invoice services of the spec, the
  table ends with the cancellation record followed by the new invoice, the old invoice is
  canceled, and the audit entry names the new invoice.
\<close>

theorem reissue_cancels_then_generates:
  assumes g: "order_invoices_get i w = Some iv" and c: "\<not> canceled iv"
  shows "OrderInvoiceReissue_post gen_cancellation gen_invoice i req w
           = (case gen_cancellation iv w of
                (cr, w1) \<Rightarrow>
                  (case gen_invoice w1 of
                     (new, w2) \<Rightarrow>
                       (RedirectOrderUrl,
                        w2\<lparr>logs := logs w2 @
                             [\<lparr>action = ''pretix.event.order.invoice.reissued'', log_user = req_user req,
                                log_data = [(''invoice'', LNat (inv_pk new))]\<rparr>],
                           msgs := msgs w2 @ [(SUCCESS, ''The invoice has been reissued.'')]\<rparr>)))
       \<and> (case OrderInvoiceReissue_post generate_cancellation generate_invoice i req w of
             (resp, w') \<Rightarrow>
               (let cr = \<lparr>inv_pk = fresh_invoice_pk w, inv_order = inv_order iv, canceled = False,
                           is_cancellation = True, refers = Some i\<rparr>;
                    new = \<lparr>inv_pk = Suc (fresh_invoice_pk w), inv_order = code (inst w), canceled = False,
                            is_cancellation = False, refers = None\<rparr>
                in invoices w' =
                     map (\<lambda>v. if inv_pk v = i then v\<lparr>canceled := True\<rparr> else v) (invoices w) @ [cr, new]
                 \<and> logs w' = logs w @
                     [\<lparr>action = ''pretix.event.order.invoice.reissued'', log_user = req_user req,
                        log_data = [(''invoice'', LNat (inv_pk new))]\<rparr>]
                 \<and> inv_pk cr < inv_pk new
                 \<and> (\<forall>v \<in> set (invoices w). inv_pk v < inv_pk cr)))"
proof -
  from g have pk: "inv_pk iv = i"
    by (auto simp: order_invoices_get_def find_Some_iff)
  have keep: "map (inv_pk \<circ> (\<lambda>v. if inv_pk v = i then v\<lparr>canceled := True\<rparr> else v)) xs = map inv_pk xs"
    for xs by (induction xs) auto
  have next_pk: "fresh_invoice_pk (snd (generate_cancellation iv w)) = Suc (fresh_invoice_pk w)"
    by (simp add: generate_cancellation_def fresh_invoice_pk_def Let_def pk keep)
  have first: "OrderInvoiceReissue_post gen_cancellation gen_invoice i req w
           = (case gen_cancellation iv w of
                (cr, w1) \<Rightarrow>
                  (case gen_invoice w1 of
                     (new, w2) \<Rightarrow>
                       (RedirectOrderUrl,
                        w2\<lparr>logs := logs w2 @
                             [\<lparr>action = ''pretix.event.order.invoice.reissued'', log_user = req_user req,
                                log_data = [(''invoice'', LNat (inv_pk new))]\<rparr>],
                           msgs := msgs w2 @ [(SUCCESS, ''The invoice has been reissued.'')]\<rparr>)))"
    for gen_cancellation gen_invoice
    using g c
    by (simp add: OrderInvoiceReissue_post_def add_message_def log_action_def split: prod.splits)
  have second: "case OrderInvoiceReissue_post generate_cancellation generate_invoice i req w of
             (resp, w') \<Rightarrow>
               (let cr = \<lparr>inv_pk = fresh_invoice_pk w, inv_order = inv_order iv, canceled = False,
                           is_cancellation = True, refers = Some i\<rparr>;
                    new = \<lparr>inv_pk = Suc (fresh_invoice_pk w), inv_order = code (inst w), canceled = False,
                            is_cancellation = False, refers = None\<rparr>
                in invoices w' =
                     map (\<lambda>v. if inv_pk v = i then v\<lparr>canceled := True\<rparr> else v) (invoices w) @ [cr, new]
                 \<and> logs w' = logs w @
                     [\<lparr>action = ''pretix.event.order.invoice.reissued'', log_user = req_user req,
                        log_data = [(''invoice'', LNat (inv_pk new))]\<rparr>]
                 \<and> inv_pk cr < inv_pk new
                 \<and> (\<forall>v \<in> set (invoices w). inv_pk v < inv_pk cr))"
    using next_pk
    by (simp add: first [of generate_cancellation generate_invoice] generate_cancellation_def
        generate_invoice_def Let_def pk fresh_invoice_pk_fresh)
  from first second show ?thesis by blast
qed

theorem reissue_cancels_then_generates_witness:
  "OrderInvoiceReissue_post generate_cancellation generate_invoice 3 post_empty world_invoiced
     = (RedirectOrderUrl,
        world_invoiced\<lparr>invoices :=
          [\<lparr>inv_pk = 1, inv_order = ''ABC12'', canceled = True, is_cancellation = False, refers = None\<rparr>,
           \<lparr>inv_pk = 2, inv_order = ''ABC12'', canceled = False, is_cancellation = True, refers = Some 1\<rparr>,
           \<lparr>inv_pk = 3, inv_order = ''ABC12'', canceled = True, is_cancellation = False, refers = None\<rparr>,
           \<lparr>inv_pk = 4, inv_order = ''XYZ99'', canceled = False, is_cancellation = False, refers = None\<rparr>,
           \<lparr>inv_pk = 5, inv_order = ''ABC12'', canceled = False, is_cancellation = True, refers = Some 3\<rparr>,
           \<lparr>inv_pk = 6, inv_order = ''ABC12'', canceled = False, is_cancellation = False, refers = None\<rparr>],
          logs := [\<lparr>action = ''pretix.event.order.invoice.reissued'', log_user = ''admin'',
                    log_data = [(''invoice'', LNat 6)]\<rparr>],
          msgs := [(SUCCESS, ''The invoice has been reissued.'')]\<rparr>)"
  using reissue_cancels_then_generates [of 3 world_invoiced
      "\<lparr>inv_pk = 3, inv_order = ''ABC12'', canceled = False, is_cancellation = False, refers = None\<rparr>"
      generate_cancellation generate_invoice post_empty]
  by (simp add: world_invoiced_def world_ABC12_def order_ABC12_def order_invoices_get_def
      generate_cancellation_def generate_invoice_def fresh_invoice_pk_def post_empty_def Let_def)

subsection \<open>Extending the payment term\<close>

text \<open>
  C2. With a valid form, extending the term of an Expired order acquires the lock and checks
  availability while it is held. If every position of the order is available, the new
  deadline is saved and the order is stored as Pending; otherwise the stored order is what it
  was, the order stays Expired, nothing is logged and the reason of an exhausted position is
  the error message. For a Pending order the deadline is saved and neither the lock nor the
  availability check is called, whatever they would answer.
\<close>

theorem extend_revalidates_expired:
  assumes v: "ef_valid form"
  shows "(status (inst w) = STATUS_EXPIRED \<longrightarrow>
          (case OrderExtend_post (Some now_dt) (is_still_available check) form req w of
             (resp, w') \<Rightarrow>
               resp = RedirectBack
             \<and> calls w' = calls w @ [LockAcquired, AvailabilityChecked now_dt, LockReleased]
             \<and> (if \<forall>p \<in> set (order_positions w). check now_dt p = Available
                then db_order w' = (inst w)\<lparr>expires := ef_expires form, status := STATUS_PENDING\<rparr>
                   \<and> inst w' = db_order w'
                   \<and> msgs w' = msgs w @ [(SUCCESS, ''The payment term has been changed.'')]
                else db_order w' = db_order w
                   \<and> status (inst w') = STATUS_EXPIRED
                   \<and> logs w' = logs w
                   \<and> (\<exists>p \<in> set (order_positions w). \<exists>r.
                         check now_dt p = Unavailable r \<and> msgs w' = msgs w @ [(ERROR, r)]))))
       \<and> (status (inst w) = STATUS_PENDING \<longrightarrow>
          (case OrderExtend_post lock avail form req w of
             (resp, w') \<Rightarrow>
               resp = RedirectBack
             \<and> db_order w' = (inst w)\<lparr>expires := ef_expires form\<rparr>
             \<and> inst w' = db_order w'
             \<and> calls w' = calls w
             \<and> msgs w' = msgs w @ [(SUCCESS, ''The payment term has been changed.'')]))"
proof -
  have op: "order_positions (w\<lparr>inst := (inst w)\<lparr>expires := x\<rparr>, calls := cs\<rparr>) = order_positions w"
    for x cs
    by (simp add: order_positions_def)
  have pending: "status (inst w) = STATUS_PENDING \<Longrightarrow>
          (case OrderExtend_post lock avail form req w of
             (resp, w') \<Rightarrow>
               resp = RedirectBack
             \<and> db_order w' = (inst w)\<lparr>expires := ef_expires form\<rparr>
             \<and> inst w' = db_order w'
             \<and> calls w' = calls w
             \<and> msgs w' = msgs w @ [(SUCCESS, ''The payment term has been changed.'')])"
    using v
    by (simp add: OrderExtend_post_def extend_form_is_valid_def add_message_def log_action_def
        form_save_def order_save_def Let_def)
  have expired: "(case OrderExtend_post (Some now_dt) (is_still_available check) form req w of
             (resp, w') \<Rightarrow>
               resp = RedirectBack
             \<and> calls w' = calls w @ [LockAcquired, AvailabilityChecked now_dt, LockReleased]
             \<and> (if \<forall>p \<in> set (order_positions w). check now_dt p = Available
                then db_order w' = (inst w)\<lparr>expires := ef_expires form, status := STATUS_PENDING\<rparr>
                   \<and> inst w' = db_order w'
                   \<and> msgs w' = msgs w @ [(SUCCESS, ''The payment term has been changed.'')]
                else db_order w' = db_order w
                   \<and> status (inst w') = STATUS_EXPIRED
                   \<and> logs w' = logs w
                   \<and> (\<exists>p \<in> set (order_positions w). \<exists>r.
                         check now_dt p = Unavailable r \<and> msgs w' = msgs w @ [(ERROR, r)])))"
    if e: "status (inst w) = STATUS_EXPIRED"
  proof (cases "\<forall>p \<in> set (order_positions w). check now_dt p = Available")
    case True
    then have n: "first_unavailable (check now_dt) (order_positions w) = None"
      by (rule first_unavailable_None)
    show ?thesis
      using v e True
      by (simp add: OrderExtend_post_def extend_form_is_valid_def is_still_available_def op n
          add_message_def log_action_def form_save_def order_save_def record_call_def Let_def)
  next
    case False
    then obtain p where p: "p \<in> set (order_positions w)" "check now_dt p \<noteq> Available" by blast
    then obtain r where r: "first_unavailable (check now_dt) (order_positions w) = Some r"
      using first_unavailable_Some [of p "order_positions w" "check now_dt"] by blast
    then obtain q where q: "q \<in> set (order_positions w)" "check now_dt q = Unavailable r"
      using first_unavailable_sound by blast
    have "OrderExtend_post (Some now_dt) (is_still_available check) form req w
        = (RedirectBack,
           w\<lparr>inst := (inst w)\<lparr>expires := ef_expires form\<rparr>,
             calls := calls w @ [LockAcquired, AvailabilityChecked now_dt, LockReleased],
             msgs := msgs w @ [(ERROR, r)]\<rparr>)"
      using v e
      by (simp add: OrderExtend_post_def extend_form_is_valid_def is_still_available_def op r
          add_message_def record_call_def Let_def)
    with False e q show ?thesis by auto
  qed
  from pending expired show ?thesis by blast
qed

theorem extend_revalidates_expired_witness:
  "OrderExtend_post (Some 50) (is_still_available (\<lambda>t. sold_out 11)) (extend_to 200) post_empty world_expired
     = (RedirectBack,
        world_expired\<lparr>inst := order_ABC12\<lparr>status := STATUS_EXPIRED, expires := 200\<rparr>,
          calls := [LockAcquired, AvailabilityChecked 50, LockReleased],
          msgs := [(ERROR, ''The item is sold out.'')]\<rparr>)
   \<and> db_order (snd (OrderExtend_post (Some 50) (is_still_available (\<lambda>t. sold_out 12)) (extend_to 200)
        post_empty world_expired)) = order_ABC12\<lparr>status := STATUS_PENDING, expires := 200\<rparr>
   \<and> db_order (snd (OrderExtend_post None (\<lambda>t w. Available) (extend_to 200)
        post_empty world_ABC12)) = order_ABC12\<lparr>expires := 200\<rparr>"
  using extend_revalidates_expired [of "extend_to 200" world_expired 50 "\<lambda>t. sold_out 11" post_empty]
    extend_revalidates_expired [of "extend_to 200" world_expired 50 "\<lambda>t. sold_out 12" post_empty]
    extend_revalidates_expired [of "extend_to 200" world_ABC12 50 "\<lambda>t. sold_out 12" post_empty None
      "\<lambda>t w. Available"]
  by (simp add: extend_to_def world_expired_def world_ABC12_def order_ABC12_def post_empty_def
      OrderExtend_post_def extend_form_is_valid_def is_still_available_def order_positions_def
      sold_out_def add_message_def log_action_def form_save_def order_save_def record_call_def Let_def)

text \<open>
  C7. When the lock of the event cannot be acquired while an Expired order is revived, the
  view returns with the message that the server was too busy; the stored order, with its
  status and deadline, is unchanged, the order stays Expired and nothing is logged.
\<close>

theorem extend_lock_timeout:
  assumes v: "ef_valid form" and e: "status (inst w) = STATUS_EXPIRED"
  shows "case OrderExtend_post None avail form req w of
           (resp, w') \<Rightarrow>
             resp = RedirectBack
           \<and> msgs w' = msgs w @ [(ERROR,
                ''We were not able to process the request completely as the server was too busy.'')]
           \<and> db_order w' = db_order w
           \<and> status (inst w') = STATUS_EXPIRED
           \<and> logs w' = logs w
           \<and> calls w' = calls w @ [LockTimedOut]"
  using v e
  by (simp add: OrderExtend_post_def extend_form_is_valid_def add_message_def record_call_def)

theorem extend_lock_timeout_witness:
  "OrderExtend_post None (is_still_available (\<lambda>t p. Available)) (extend_to 200) post_empty world_expired
     = (RedirectBack,
        world_expired\<lparr>inst := order_ABC12\<lparr>status := STATUS_EXPIRED, expires := 200\<rparr>,
          calls := [LockTimedOut],
          msgs := [(ERROR,
            ''We were not able to process the request completely as the server was too busy.'')]\<rparr>)
   \<and> db_order world_expired = order_ABC12\<lparr>status := STATUS_EXPIRED\<rparr>"
  using extend_lock_timeout [of "extend_to 200" world_expired "is_still_available (\<lambda>t p. Available)" post_empty]
  by (simp add: extend_to_def world_expired_def world_ABC12_def order_ABC12_def
      OrderExtend_post_def extend_form_is_valid_def add_message_def record_call_def)

subsection \<open>Dispatch\<close>

text \<open>
  What \<^verbatim>\<open>OrderExtend.dispatch\<close> gives the parent for a Pending or Expired order: the
  request, the keys of the keyword arguments as positional arguments, and the keyword
  arguments. The positional arguments of the view are dropped.
\<close>

lemma OrderExtend_dispatch_forwards:
  "status (inst w) = STATUS_PENDING \<or> status (inst w) = STATUS_EXPIRED \<Longrightarrow>
   OrderExtend_dispatch super_dispatch req args kwargs w = super_dispatch req (map (\<lambda>kv. PyStr (fst kv)) kwargs) kwargs w"
  by (auto simp: OrderExtend_dispatch_def)

text \<open>
  C9. For the Pending order ABC12, called with no positional argument and the keyword
  argument \<^verbatim>\<open>code\<close>, the parent's dispatch receives one positional argument, the key
  \<^verbatim>\<open>code\<close>: a parent that answers with one star for each positional argument
  answers with one star, and with none when it is given the view's own arguments.
\<close>

theorem extend_dispatch_passes_keys:
  "OrderExtend_dispatch count_args_dispatch post_empty [] [(''code'', PyStr ''ABC12'')] world_ABC12
     = count_args_dispatch post_empty [PyStr ''code''] [(''code'', PyStr ''ABC12'')] world_ABC12
   \<and> OrderExtend_dispatch count_args_dispatch post_empty [] [(''code'', PyStr ''ABC12'')] world_ABC12
     = (Render ''*'', world_ABC12)
   \<and> count_args_dispatch post_empty [] [(''code'', PyStr ''ABC12'')] world_ABC12
     = (Render '''', world_ABC12)"
  by (simp add: OrderExtend_dispatch_def count_args_dispatch_def world_ABC12_def order_ABC12_def)

text \<open>
  C8. For an order that is neither Pending nor Paid, \<^verbatim>\<open>OrderChange.dispatch\<close> answers
  with an error message and the redirect, whatever the request and whatever the parent's
  dispatch would do: the forms and the world are otherwise untouched and no change manager
  exists, so no operation is recorded.
\<close>

theorem change_refused_unless_pending_or_paid:
  assumes "status (inst w) \<noteq> STATUS_PENDING" and "status (inst w) \<noteq> STATUS_PAID"
  shows "OrderChange_dispatch super_dispatch req args kwargs cv w
           = Inr (RedirectBack, cv,
                  w\<lparr>msgs := msgs w @ [(ERROR, ''This action is only allowed for pending or paid orders.'')]\<rparr>,
                  None)"
  using assms by (simp add: OrderChange_dispatch_def add_message_def)

theorem change_refused_unless_pending_or_paid_witness:
  "OrderChange_dispatch
       (\<lambda>req args kwargs cv. OrderChange_post (\<lambda>m x. None) (\<lambda>xs w. (None, w)) (\<lambda>s. Inr 10) (\<lambda>s i. Inr 20) cv req)
       post_empty [] [(''code'', PyStr ''ABC12'')] change_view_ABC12 world_expired
     = Inr (RedirectBack, change_view_ABC12,
            world_expired\<lparr>msgs := [(ERROR, ''This action is only allowed for pending or paid orders.'')]\<rparr>,
            None)
   \<and> (case OrderChange_post (\<lambda>m x. None) (\<lambda>xs w. (None, w)) (\<lambda>s. Inr 10) (\<lambda>s i. Inr 20)
           change_view_ABC12 post_empty world_expired of
         Inl x \<Rightarrow> False
       | Inr (resp, cv, w, m) \<Rightarrow>
           m = Some \<lparr>operations = [ChangePrice 1 (Some 800), CancelPosition 2], commit_calls = 1\<rparr>)"
  using change_refused_unless_pending_or_paid [of world_expired
      "\<lambda>req args kwargs cv. OrderChange_post (\<lambda>m x. None) (\<lambda>xs w. (None, w)) (\<lambda>s. Inr 10) (\<lambda>s i. Inr 20) cv req"
      post_empty "[]" "[(''code'', PyStr ''ABC12'')]" change_view_ABC12]
  by (simp add: world_expired_def world_ABC12_def order_ABC12_def change_view_ABC12_def
      OrderChange_post_def process_add_def position_operation_def ocm_record_def ocm_commit_def
      OrderChangeManager_def add_message_def Let_def)

subsection \<open>Changing the contact address\<close>

lemma regenerate_keeps_keys:
  "map pos_pk (fst (regenerate_position_secrets gen c ps n)) = map pos_pk ps
   \<and> map pos_order (fst (regenerate_position_secrets gen c ps n)) = map pos_order ps"
  by (induction ps arbitrary: n) (simp_all add: case_prod_unfold)

lemma regenerate_count:
  "snd (regenerate_position_secrets gen c ps n) = n + length (filter (\<lambda>p. pos_order p = c) ps)"
  by (induction ps arbitrary: n) (simp_all add: case_prod_unfold)

lemma regenerate_others:
  "filter (\<lambda>p. pos_order p \<noteq> c) (fst (regenerate_position_secrets gen c ps n))
     = filter (\<lambda>p. pos_order p \<noteq> c) ps"
  by (induction ps arbitrary: n) (simp_all add: case_prod_unfold)

lemma regenerate_secrets:
  "map pos_secret (filter (\<lambda>p. pos_order p = c) (fst (regenerate_position_secrets gen c ps n)))
     = map gen [n ..< n + length (filter (\<lambda>p. pos_order p = c) ps)]"
proof (induction ps arbitrary: n)
  case Nil
  then show ?case by simp
next
  case (Cons p ps)
  show ?case
  proof (cases "pos_order p = c")
    case True
    have "[n ..< n + Suc (length (filter (\<lambda>p. pos_order p = c) ps))]
            = n # [Suc n ..< Suc n + length (filter (\<lambda>p. pos_order p = c) ps)]"
      using upt_conv_Cons [of n "n + Suc (length (filter (\<lambda>p. pos_order p = c) ps))"] by simp
    with True Cons [of "Suc n"] show ?thesis
      by (simp add: case_prod_unfold)
  next
    case False
    with Cons [of n] show ?thesis
      by (simp add: case_prod_unfold)
  qed
qed

lemma list_ex_keys:
  "map pos_pk ps' = map pos_pk ps \<Longrightarrow> map pos_order ps' = map pos_order ps \<Longrightarrow>
   list_ex (\<lambda>p. pos_pk p = k \<and> pos_order p = c) ps' = list_ex (\<lambda>p. pos_pk p = k \<and> pos_order p = c) ps"
proof (induction ps arbitrary: ps')
  case Nil
  then show ?case by simp
next
  case (Cons p ps)
  then obtain q qs where "ps' = q # qs" by (cases ps') auto
  with Cons show ?case by auto
qed

text \<open>
  C10. A valid contact form saves the new email address in both cases. Without
  \<^verbatim>\<open>regenerate_secrets\<close> the secret of the order, every position and every cached
  ticket are as before and one audit entry is written. With it, the order gets the next
  secret of its generator, the positions of the order get the following secrets of theirs,
  in order, the positions of other orders keep theirs, the cached tickets of the order's
  positions, and only those, are deleted, and a second audit entry records the change of
  secrets.
\<close>

theorem contact_change_secrets:
  assumes v: "ctf_valid form"
  shows "case OrderContactChange_post generate_secret generate_position_secret form req w of
      (resp, w') \<Rightarrow>
        resp = RedirectOrderUrl
      \<and> email (inst w') = ctf_email form
      \<and> email (db_order w') = ctf_email form
      \<and> (if ctf_regenerate_secrets form then
            secret (inst w') = generate_secret (rng w)
          \<and> secret (db_order w') = generate_secret (rng w)
          \<and> map pos_secret (order_positions w')
               = map generate_position_secret
                   [Suc (rng w) ..< Suc (rng w) + length (order_positions w)]
          \<and> map pos_pk (positions w') = map pos_pk (positions w)
          \<and> map pos_order (positions w') = map pos_order (positions w)
          \<and> filter (\<lambda>p. pos_order p \<noteq> code (inst w)) (positions w')
               = filter (\<lambda>p. pos_order p \<noteq> code (inst w)) (positions w)
          \<and> cached_tickets w' = filter (\<lambda>t. \<not> ticket_of_order w t) (cached_tickets w)
          \<and> logs w' = logs w @
               [\<lparr>action = ''pretix.event.order.contact.changed'', log_user = req_user req,
                  log_data = [(''old_email'', LStr (email (inst w))),
                              (''new_email'', LStr (ctf_email form))]\<rparr>,
                \<lparr>action = ''pretix.event.order.secret.changed'', log_user = req_user req,
                  log_data = []\<rparr>]
          else
            secret (inst w') = secret (inst w)
          \<and> secret (db_order w') = secret (inst w)
          \<and> positions w' = positions w
          \<and> cached_tickets w' = cached_tickets w
          \<and> logs w' = logs w @
               [\<lparr>action = ''pretix.event.order.contact.changed'', log_user = req_user req,
                  log_data = [(''old_email'', LStr (email (inst w))),
                              (''new_email'', LStr (ctf_email form))]\<rparr>])"
proof (cases "ctf_regenerate_secrets form")
  case False
  with v show ?thesis
    by (simp add: OrderContactChange_post_def contact_form_is_valid_def log_action_def
        form_save_def order_save_def add_message_def Let_def)
next
  case True
  define c where "c = code (inst w)"
  define r where "r = regenerate_position_secrets generate_position_secret c (positions w) (Suc (rng w))"
  have keys: "map pos_pk (fst r) = map pos_pk (positions w)"
    "map pos_order (fst r) = map pos_order (positions w)"
    using regenerate_keeps_keys [of generate_position_secret c "positions w" "Suc (rng w)"]
    by (simp_all add: r_def)
  have tick: "list_ex (\<lambda>p. pos_pk p = k \<and> pos_order p = c) (fst r)
      = list_ex (\<lambda>p. pos_pk p = k \<and> pos_order p = c) (positions w)" for k
    using keys by (rule list_ex_keys)
  have sec: "map pos_secret (filter (\<lambda>p. pos_order p = c) (fst r))
     = map generate_position_secret
         [Suc (rng w) ..< Suc (rng w) + length (filter (\<lambda>p. pos_order p = c) (positions w))]"
    unfolding r_def by (rule regenerate_secrets)
  have oth: "filter (\<lambda>p. pos_order p \<noteq> c) (fst r) = filter (\<lambda>p. pos_order p \<noteq> c) (positions w)"
    unfolding r_def by (rule regenerate_others)
  have res: "OrderContactChange_post generate_secret generate_position_secret form req w
    = (RedirectOrderUrl,
       w\<lparr>inst := (inst w)\<lparr>email := ctf_email form, secret := generate_secret (rng w)\<rparr>,
         db_order := (inst w)\<lparr>email := ctf_email form, secret := generate_secret (rng w)\<rparr>,
         positions := fst r,
         rng := snd r,
         cached_tickets :=
           filter (\<lambda>t. \<not> list_ex (\<lambda>p. pos_pk p = order_position t \<and> pos_order p = c) (fst r))
             (cached_tickets w),
         logs := logs w @
               [\<lparr>action = ''pretix.event.order.contact.changed'', log_user = req_user req,
                  log_data = [(''old_email'', LStr (email (inst w))),
                              (''new_email'', LStr (ctf_email form))]\<rparr>,
                \<lparr>action = ''pretix.event.order.secret.changed'', log_user = req_user req,
                  log_data = []\<rparr>],
         msgs := msgs w @ [(SUCCESS, ''The order has been changed.'')]\<rparr>)"
    using v True
    by (simp add: OrderContactChange_post_def contact_form_is_valid_def log_action_def
        form_save_def order_save_def add_message_def ticket_of_order_def Let_def
        r_def [symmetric] c_def [symmetric] split: prod.splits)
  show ?thesis
    using True keys sec oth
    by (simp add: res order_positions_def ticket_of_order_def tick c_def [symmetric])
qed

theorem contact_change_secrets_witness:
  "OrderContactChange_post (numbered_secret ''o'') (numbered_secret ''p'') (contact_to ''b@example.org'' True)
       post_empty world_ticketed
     = (RedirectOrderUrl,
        world_ticketed\<lparr>
          inst := order_ABC12\<lparr>email := ''b@example.org'', secret := ''oxxxxxxx''\<rparr>,
          db_order := order_ABC12\<lparr>email := ''b@example.org'', secret := ''oxxxxxxx''\<rparr>,
          positions :=
            [\<lparr>pos_pk = 1, pos_order = ''ABC12'', pos_item = 10, pos_secret = ''pxxxxxxxx''\<rparr>,
             \<lparr>pos_pk = 2, pos_order = ''ABC12'', pos_item = 11, pos_secret = ''pxxxxxxxxx''\<rparr>,
             \<lparr>pos_pk = 3, pos_order = ''XYZ99'', pos_item = 10, pos_secret = ''p3''\<rparr>],
          cached_tickets := [\<lparr>ct_pk = 2, order_position = 3\<rparr>],
          logs :=
            [\<lparr>action = ''pretix.event.order.contact.changed'', log_user = ''admin'',
               log_data = [(''old_email'', LStr ''a@example.org''), (''new_email'', LStr ''b@example.org'')]\<rparr>,
             \<lparr>action = ''pretix.event.order.secret.changed'', log_user = ''admin'', log_data = []\<rparr>],
          msgs := [(SUCCESS, ''The order has been changed.'')],
          rng := 10\<rparr>)
   \<and> snd (OrderContactChange_post (numbered_secret ''o'') (numbered_secret ''p'')
        (contact_to ''b@example.org'' False) post_empty world_ticketed)
     = world_ticketed\<lparr>
          inst := order_ABC12\<lparr>email := ''b@example.org''\<rparr>,
          db_order := order_ABC12\<lparr>email := ''b@example.org''\<rparr>,
          logs :=
            [\<lparr>action = ''pretix.event.order.contact.changed'', log_user = ''admin'',
               log_data = [(''old_email'', LStr ''a@example.org''), (''new_email'', LStr ''b@example.org'')]\<rparr>],
          msgs := [(SUCCESS, ''The order has been changed.'')]\<rparr>"
  using contact_change_secrets [where form = "contact_to ''b@example.org'' True"
      and generate_secret = "numbered_secret ''o''"
      and generate_position_secret = "numbered_secret ''p''"
      and req = post_empty and w = world_ticketed]
    contact_change_secrets [where form = "contact_to ''b@example.org'' False"
      and generate_secret = "numbered_secret ''o''"
      and generate_position_secret = "numbered_secret ''p''"
      and req = post_empty and w = world_ticketed]
  by (simp add: OrderContactChange_post_def contact_form_is_valid_def log_action_def
      form_save_def order_save_def add_message_def ticket_of_order_def Let_def
      contact_to_def world_ticketed_def world_ABC12_def order_ABC12_def post_empty_def
      numbered_secret_def eval_nat_numeral)

subsection \<open>Changing an order\<close>










end
